theory Spec2Isabelle
  imports Main "HOL-Library.Word" "HOL-Library.AList"
begin

section \<open>Go strings\<close>

text \<open>
  A Go string is a sequence of bytes; \<open>len\<close> counts bytes and slicing is by byte
  offset. It is modelled as a \<open>string\<close> (a list of 8-bit characters). The functions
  of package \<open>strings\<close> used by the server are written out below.
\<close>

definition hasPrefix :: "string \<Rightarrow> string \<Rightarrow> bool" where
  "hasPrefix s p = (take (length p) s = p)"

definition hasSuffix :: "string \<Rightarrow> string \<Rightarrow> bool" where
  "hasSuffix s p = (length p \<le> length s \<and> drop (length s - length p) s = p)"

definition trimPrefix :: "string \<Rightarrow> string \<Rightarrow> string" where
  "trimPrefix s p = (if hasPrefix s p then drop (length p) s else s)"

definition trimSuffix :: "string \<Rightarrow> string \<Rightarrow> string" where
  "trimSuffix s p = (if hasSuffix s p then take (length s - length p) s else s)"

text \<open>\<open>strings.SplitN(s, sep, 2)\<close> for a one-byte separator: cut at the first separator.\<close>

definition splitN2 :: "char \<Rightarrow> string \<Rightarrow> string list" where
  "splitN2 sep s =
     (if sep \<in> set s
      then [takeWhile (\<lambda>c. c \<noteq> sep) s, tl (dropWhile (\<lambda>c. c \<noteq> sep) s)]
      else [s])"

definition isDigit :: "char \<Rightarrow> bool" where
  "isDigit c = (48 \<le> (of_char c :: nat) \<and> (of_char c :: nat) \<le> 57)"

subsection \<open>White space: \<open>strings.TrimSpace\<close>\<close>

text \<open>
  \<open>strings.TrimSpace\<close> removes leading and trailing runes for which \<open>unicode.IsSpace\<close>
  holds: the six ASCII characters tab, line feed, vertical tab, form feed, carriage
  return and space, and the code points U+0085, U+00A0, U+1680, U+2000 to U+200A,
  U+2028, U+2029, U+202F, U+205F and U+3000. On the bytes of a string these are the
  one-byte, two-byte and three-byte UTF-8 sequences below; a byte that does not decode
  to one of them (also an invalid one) is not white space.
\<close>

definition asciiSpace :: "char \<Rightarrow> bool" where
  "asciiSpace c = (c = CHR 0x09 \<or> c = CHR 0x0A \<or> c = CHR 0x0B \<or> c = CHR 0x0C \<or> c = CHR 0x0D \<or> c = CHR 0x20)"

definition unicodeSpace2 :: "char \<Rightarrow> char \<Rightarrow> bool" where
  "unicodeSpace2 c1 c2 = (c1 = CHR 0xC2 \<and> (c2 = CHR 0x85 \<or> c2 = CHR 0xA0))"

definition unicodeSpace3 :: "char \<Rightarrow> char \<Rightarrow> char \<Rightarrow> bool" where
  "unicodeSpace3 c1 c2 c3 =
     (c1 = CHR 0xE1 \<and> c2 = CHR 0x9A \<and> c3 = CHR 0x80
      \<or> c1 = CHR 0xE2 \<and> c2 = CHR 0x80 \<and>
          (0x80 \<le> (of_char c3 :: nat) \<and> (of_char c3 :: nat) \<le> 0x8A
           \<or> c3 = CHR 0xA8 \<or> c3 = CHR 0xA9 \<or> c3 = CHR 0xAF)
      \<or> c1 = CHR 0xE2 \<and> c2 = CHR 0x81 \<and> c3 = CHR 0x9F
      \<or> c1 = CHR 0xE3 \<and> c2 = CHR 0x80 \<and> c3 = CHR 0x80)"

definition spacePrefixLen :: "string \<Rightarrow> nat" where
  "spacePrefixLen s =
     (case s of [] \<Rightarrow> 0
      | c1 # r1 \<Rightarrow> if asciiSpace c1 then 1 else
         (case r1 of [] \<Rightarrow> 0
          | c2 # r2 \<Rightarrow> if unicodeSpace2 c1 c2 then 2 else
             (case r2 of [] \<Rightarrow> 0
              | c3 # r3 \<Rightarrow> if unicodeSpace3 c1 c2 c3 then 3 else 0)))"

definition spaceSuffixLen :: "string \<Rightarrow> nat" where
  "spaceSuffixLen s =
     (case rev s of [] \<Rightarrow> 0
      | c1 # r1 \<Rightarrow> if asciiSpace c1 then 1 else
         (case r1 of [] \<Rightarrow> 0
          | c2 # r2 \<Rightarrow> if unicodeSpace2 c2 c1 then 2 else
             (case r2 of [] \<Rightarrow> 0
              | c3 # r3 \<Rightarrow> if unicodeSpace3 c3 c2 c1 then 3 else 0)))"

lemma spacePrefixLen_le: "spacePrefixLen s \<le> length s"
  by (auto simp: spacePrefixLen_def split: list.splits)

lemma spaceSuffixLen_le: "spaceSuffixLen s \<le> length s"
proof -
  have "spaceSuffixLen s \<le> length (rev s)"
    unfolding spaceSuffixLen_def by (auto split: list.splits)
  then show ?thesis by simp
qed

text \<open>
  Trimming removes one white-space rune after the other, at the front and then at the
  back; both loops stop at the first rune that is not white space.
\<close>

function trimLeft :: "string \<Rightarrow> string" where
  "trimLeft s = (if spacePrefixLen s = 0 then s else trimLeft (drop (spacePrefixLen s) s))"
  by pat_completeness auto
termination
proof (relation "measure length")
  show "wf (measure length)" by simp
next
  fix s :: string
  assume "spacePrefixLen s \<noteq> 0"
  moreover have "spacePrefixLen s \<le> length s" by (rule spacePrefixLen_le)
  ultimately show "(drop (spacePrefixLen s) s, s) \<in> measure length" by simp
qed

function trimRight :: "string \<Rightarrow> string" where
  "trimRight s = (if spaceSuffixLen s = 0 then s else trimRight (take (length s - spaceSuffixLen s) s))"
  by pat_completeness auto
termination
proof (relation "measure length")
  show "wf (measure length)" by simp
next
  fix s :: string
  assume "spaceSuffixLen s \<noteq> 0"
  moreover have "spaceSuffixLen s \<le> length s" by (rule spaceSuffixLen_le)
  ultimately show "(take (length s - spaceSuffixLen s) s, s) \<in> measure length" by simp
qed

declare trimLeft.simps [simp del] trimRight.simps [simp del]

definition trimSpace :: "string \<Rightarrow> string" where
  "trimSpace s = trimRight (trimLeft s)"

lemma length_trimLeft_le: "length (trimLeft s) \<le> length s"
proof (induction s rule: trimLeft.induct)
  case (1 s)
  show ?case
  proof (cases "spacePrefixLen s = 0")
    case True
    then show ?thesis by (simp add: trimLeft.simps[of s])
  next
    case False
    with 1 have "length (trimLeft (drop (spacePrefixLen s) s)) \<le> length (drop (spacePrefixLen s) s)" by simp
    with False show ?thesis by (simp add: trimLeft.simps[of s])
  qed
qed

lemma length_trimRight_le: "length (trimRight s) \<le> length s"
proof (induction s rule: trimRight.induct)
  case (1 s)
  show ?case
  proof (cases "spaceSuffixLen s = 0")
    case True
    then show ?thesis by (simp add: trimRight.simps[of s])
  next
    case False
    with 1 have "length (trimRight (take (length s - spaceSuffixLen s) s)) \<le> length (take (length s - spaceSuffixLen s) s)" by simp
    with False show ?thesis by (simp add: trimRight.simps[of s])
  qed
qed

lemma length_trimSpace_le: "length (trimSpace s) \<le> length s"
  unfolding trimSpace_def
  using length_trimRight_le[of "trimLeft s"] length_trimLeft_le[of s] by simp

subsection \<open>Case, splitting, joining, decimal numbers\<close>

text \<open>
  \<open>strings.ToLower\<close> and \<open>strings.EqualFold\<close> are modelled on the ASCII letters:
  \<open>A\<close> to \<open>Z\<close> are mapped to \<open>a\<close> to \<open>z\<close> and every other byte is kept. Go maps the
  letters of other scripts as well; no such letter is mapped to an ASCII letter of the
  words \<open>metadata\<close>, \<open>title\<close>, \<open>date\<close> and \<open>tags\<close>, the only words the parser compares a
  lowered string with. For tags, which the parser lowers to find duplicates, the model
  is that of ASCII tag names.
\<close>

definition toLowerChar :: "char \<Rightarrow> char" where
  "toLowerChar c = (if 65 \<le> (of_char c :: nat) \<and> (of_char c :: nat) \<le> 90
                    then char_of ((of_char c :: nat) + 32) else c)"

definition toLower :: "string \<Rightarrow> string" where
  "toLower s = map toLowerChar s"

definition equalFold :: "string \<Rightarrow> string \<Rightarrow> bool" where
  "equalFold s t = (toLower s = toLower t)"

text \<open>\<open>strings.Split(s, sep)\<close> and \<open>strings.Join(elems, sep)\<close>, for a one-byte separator in \<open>split\<close>.\<close>

fun split :: "char \<Rightarrow> string \<Rightarrow> string list" where
  "split sep [] = [[]]"
| "split sep (c # cs) =
     (if c = sep then [] # split sep cs
      else (case split sep cs of x # xs \<Rightarrow> (c # x) # xs | [] \<Rightarrow> [[c]]))"

fun join :: "string \<Rightarrow> string list \<Rightarrow> string" where
  "join sep [] = []"
| "join sep [x] = x"
| "join sep (x # y # ys) = x @ sep @ join sep (y # ys)"

text \<open>The decimal numeral that \<open>fmt.Sprintf\<close> prints for \<open>%d\<close> (line numbers are not negative).\<close>

definition digitChar :: "nat \<Rightarrow> char" where
  "digitChar d = char_of (48 + d)"

fun itoa :: "nat \<Rightarrow> string" where
  "itoa n = (if n < 10 then [digitChar n] else itoa (n div 10) @ [digitChar (n mod 10)])"

declare itoa.simps [simp del]

text \<open>
  A \<open>bufio.Scanner\<close> with its default split function \<open>ScanLines\<close> and its default
  buffer of \<open>MaxScanTokenSize\<close> bytes: the text is cut at line feeds, one trailing
  carriage return is dropped from each line, an empty last line is not a token, and the
  scan stops (with \<open>ErrTooLong\<close>, which \<open>Parse\<close> does not look at) at the first line that
  does not fit the buffer.
\<close>

definition dropCR :: "string \<Rightarrow> string" where
  "dropCR l = (if l \<noteq> [] \<and> last l = CHR 0x0D then butlast l else l)"

definition maxScanTokenSize :: nat where
  "maxScanTokenSize = 65536"

definition scanLines :: "string \<Rightarrow> string list" where
  "scanLines s =
     (let ls0 = split (CHR 0x0A) s;
          ls = (if last ls0 = [] then butlast ls0 else ls0)
      in map dropCR (takeWhile (\<lambda>l. length l < maxScanTokenSize) ls))"

text \<open>
  \<open>timeParseOK v\<close>: \<open>time.Parse("2006-01-02", v)\<close> returns no error. The layout reads four
  digits, a hyphen, two digits, a hyphen and two digits, and nothing else; the month
  must be 1 to 12 and the day must exist in that month of that year.
\<close>

definition digitVal :: "char \<Rightarrow> nat" where
  "digitVal c = (of_char c :: nat) - 48"

definition isLeap :: "nat \<Rightarrow> bool" where
  "isLeap y = (y mod 4 = 0 \<and> (y mod 100 \<noteq> 0 \<or> y mod 400 = 0))"

definition daysIn :: "nat \<Rightarrow> nat \<Rightarrow> nat" where
  "daysIn m y = (if m = 2 then (if isLeap y then 29 else 28)
                 else if m = 4 \<or> m = 6 \<or> m = 9 \<or> m = 11 then 30 else 31)"

definition timeParseOK :: "string \<Rightarrow> bool" where
  "timeParseOK v =
     (length v = 10 \<and>
      isDigit (v ! 0) \<and> isDigit (v ! 1) \<and> isDigit (v ! 2) \<and> isDigit (v ! 3) \<and>
      v ! 4 = CHR ''-'' \<and> isDigit (v ! 5) \<and> isDigit (v ! 6) \<and>
      v ! 7 = CHR ''-'' \<and> isDigit (v ! 8) \<and> isDigit (v ! 9) \<and>
      (let year = digitVal (v ! 0) * 1000 + digitVal (v ! 1) * 100 + digitVal (v ! 2) * 10 + digitVal (v ! 3);
           month = digitVal (v ! 5) * 10 + digitVal (v ! 6);
           day = digitVal (v ! 8) * 10 + digitVal (v ! 9)
       in 1 \<le> month \<and> month \<le> 12 \<and> 1 \<le> day \<and> day \<le> daysIn month year))"

section \<open>Metadata parser (package metadata)\<close>

text \<open>
  The structs of the package. \<open>Parse\<close> works on a \<open>ParseResult\<close> behind a pointer and
  appends to its slices; here each step returns the updated result. A Go \<open>error\<close> is
  modelled by its message, \<open>nil\<close> by \<open>None\<close>.
\<close>

record Metadata =
  Title :: string
  Date :: string
  Tags :: "string list"

record ParseError =
  Line :: nat
  Field :: string
  Message :: string

record ParseResult =
  Metadata :: Metadata
  Errors :: "ParseError list"
  Warnings :: "string list"

definition ParseError_Error :: "ParseError \<Rightarrow> string" where
  "ParseError_Error e = ''line '' @ itoa (Line e) @ '' ('' @ Field e @ ''): '' @ Message e"

text \<open>
  The loop of \<open>extractMetadataBlock\<close> and \<open>parseMetadataLine\<close> that removes the leading
  percent signs, trimming white space after each one.
\<close>

function stripPercent :: "string \<Rightarrow> string" where
  "stripPercent s = (if hasPrefix s ''%'' then stripPercent (trimSpace (drop 1 s)) else s)"
  by pat_completeness auto
termination
proof (relation "measure length")
  show "wf (measure length)" by simp
next
  fix s :: string
  assume "hasPrefix s ''%''"
  then have "s \<noteq> []" by (auto simp: hasPrefix_def)
  then have "length (drop 1 s) < length s" by simp
  with length_trimSpace_le[of "drop 1 s"]
  show "(trimSpace (drop 1 s), s) \<in> measure length" by simp
qed

declare stripPercent.simps [simp del]

text \<open>
  \<open>matchFieldLine\<close> is \<open>FindStringSubmatch\<close> for the pattern \<open>^(\w+):\s*(.*)$\<close>, returning the
  two groups. In Go's syntax \<open>\w\<close> is \<open>[0-9A-Za-z_]\<close>, \<open>\s\<close> is \<open>[\t\n\f\r ]\<close>, the dot
  matches every character but the line feed, and \<open>$\<close> is the end of the text. The colon
  is no word character, so the first group is the longest run of word characters at
  the start; the greedy \<open>\s*\<close> takes every white-space character that follows the colon.
\<close>

definition isWordChar :: "char \<Rightarrow> bool" where
  "isWordChar c = (isDigit c \<or> (65 \<le> (of_char c :: nat) \<and> (of_char c :: nat) \<le> 90)
                   \<or> (97 \<le> (of_char c :: nat) \<and> (of_char c :: nat) \<le> 122) \<or> c = CHR ''_'')"

definition isReSpace :: "char \<Rightarrow> bool" where
  "isReSpace c = (c = CHR 0x09 \<or> c = CHR 0x0A \<or> c = CHR 0x0C \<or> c = CHR 0x0D \<or> c = CHR 0x20)"

definition matchFieldLine :: "string \<Rightarrow> (string \<times> string) option" where
  "matchFieldLine s =
     (let w = takeWhile isWordChar s in
      if w = [] then None
      else (case dropWhile isWordChar s of
              [] \<Rightarrow> None
            | c # rest \<Rightarrow>
                if c \<noteq> CHR '':'' then None
                else (let v = dropWhile isReSpace rest in
                      if CHR 0x0A \<in> set v then None else Some (w, v))))"

definition validateDate :: "string \<Rightarrow> string option" where
  "validateDate date =
     (if date = [] then None
      else if timeParseOK date then None
      else Some (''invalid date format (expected YYYY-MM-DD): '' @ date))"

text \<open>\<open>result.Errors = append(result.Errors, e)\<close> and the same for the warnings.\<close>

definition addError :: "ParseError \<Rightarrow> ParseResult \<Rightarrow> ParseResult" where
  "addError e r = r\<lparr>Errors := Errors r @ [e]\<rparr>"

definition addWarning :: "string \<Rightarrow> ParseResult \<Rightarrow> ParseResult" where
  "addWarning w r = r\<lparr>Warnings := Warnings r @ [w]\<rparr>"

text \<open>
  \<open>parseMetadataLine\<close> (part_001, lines 157 to 244) returns the updated result and the
  error of the call.
\<close>

definition parseMetadataLine :: "bool \<Rightarrow> string \<Rightarrow> nat \<Rightarrow> ParseResult \<Rightarrow> ParseResult \<times> string option" where
  "parseMetadataLine strict line lineNum result =
     (let trimmed = stripPercent (trimSpace line) in
      case matchFieldLine trimmed of
        None \<Rightarrow>
          (addWarning (ParseError_Error \<lparr>Line = lineNum, Field = ''format'',
                         Message = ''invalid metadata line format: '' @ line\<rparr>) result, None)
      | Some (m1, m2) \<Rightarrow>
          (let field = toLower (trimSpace m1); val = trimSpace m2 in
           if field = ''title'' then
             (if Title (Metadata result) \<noteq> [] then
                (addWarning (''line '' @ itoa lineNum @ '': duplicate title field, using first occurrence'') result, None)
              else if val = [] then
                (addError \<lparr>Line = lineNum, Field = ''title'', Message = ''title cannot be empty''\<rparr> result,
                 Some ''title cannot be empty'')
              else (result\<lparr>Metadata := (Metadata result)\<lparr>Title := val\<rparr>\<rparr>, None))
           else if field = ''date'' then
             (if Date (Metadata result) \<noteq> [] then
                (addWarning (''line '' @ itoa lineNum @ '': duplicate date field, using first occurrence'') result, None)
              else (case validateDate val of
                      Some err \<Rightarrow>
                        (let r1 = addError \<lparr>Line = lineNum, Field = ''date'', Message = err\<rparr> result;
                             r2 = r1\<lparr>Metadata := (Metadata r1)\<lparr>Date := val\<rparr>\<rparr>
                         in (r2, if strict then Some err else None))
                    | None \<Rightarrow> (result\<lparr>Metadata := (Metadata result)\<lparr>Date := val\<rparr>\<rparr>, None)))
           else if field = ''tags'' then
             (let r1 = (if Tags (Metadata result) \<noteq> []
                        then addWarning (''line '' @ itoa lineNum @ '': duplicate tags field, merging values'') result
                        else result);
                  new = (if val \<noteq> [] then filter (\<lambda>t. t \<noteq> []) (map trimSpace (split (CHR '','') val)) else [])
              in (r1\<lparr>Metadata := (Metadata r1)\<lparr>Tags := Tags (Metadata r1) @ new\<rparr>\<rparr>, None))
           else
             (addWarning (''line '' @ itoa lineNum @ '': unknown metadata field '' @ [CHR 0x27] @ field @ [CHR 0x27] @ '', ignoring'') result, None)))"

definition emptyResult :: ParseResult where
  "emptyResult = \<lparr>Metadata = \<lparr>Title = [], Date = [], Tags = []\<rparr>, Errors = [], Warnings = []\<rparr>"

text \<open>
  \<open>extractMetadataBlock\<close> (lines 114 to 154). \<open>extractLoop\<close> is the loop over the lines
  with its three variables; it leaves the loop at the \<open>break\<close>.
\<close>

definition isMetadataHeader :: "string \<Rightarrow> bool" where
  "isMetadataHeader trimmed =
     (let stripped = stripPercent trimmed
      in equalFold stripped ''Metadata'' \<or> hasPrefix (toLower stripped) ''metadata'')"

fun extractLoop :: "nat \<Rightarrow> string list \<Rightarrow> bool \<Rightarrow> nat \<Rightarrow> string list \<Rightarrow> string list \<times> nat" where
  "extractLoop i [] inMetadata startLine metadataLines = (metadataLines, startLine)"
| "extractLoop i (line # rest) inMetadata startLine metadataLines =
     (let trimmed = trimSpace line in
      if \<not> inMetadata \<and> isMetadataHeader trimmed
      then extractLoop (i + 1) rest True i (metadataLines @ [line])
      else if inMetadata
      then (if \<not> hasPrefix trimmed ''%'' then (metadataLines, startLine)
            else extractLoop (i + 1) rest inMetadata startLine (metadataLines @ [line]))
      else extractLoop (i + 1) rest inMetadata startLine metadataLines)"

definition extractMetadataBlock :: "string \<Rightarrow> string \<times> nat \<times> bool" where
  "extractMetadataBlock content =
     (case extractLoop 0 (split (CHR 0x0A) content) False 0 [] of
        (metadataLines, startLine) \<Rightarrow>
          if metadataLines = [] then ([], 0, False)
          else (join [CHR 0x0A] metadataLines, startLine, True))"

definition validateMetadata :: "Metadata \<Rightarrow> string option" where
  "validateMetadata m = (if Title m = [] then Some ''required field 'title' is missing'' else None)"

text \<open>
  \<open>normalizeMetadata\<close> (lines 271 to 291): \<open>uniqueTags\<close> is the loop over the tags,
  \<open>tagSet\<close> the keys of the map and \<open>acc\<close> the slice built so far.
\<close>

fun uniqueTags :: "string list \<Rightarrow> string list \<Rightarrow> string list \<Rightarrow> string list" where
  "uniqueTags [] tagSet acc = acc"
| "uniqueTags (tag # tags) tagSet acc =
     (let normalized = trimSpace (toLower tag) in
      if normalized \<noteq> [] \<and> normalized \<notin> set tagSet
      then uniqueTags tags (normalized # tagSet) (acc @ [tag])
      else uniqueTags tags tagSet acc)"

definition normalizeMetadata :: "Metadata \<Rightarrow> Metadata" where
  "normalizeMetadata m =
     (let m1 = m\<lparr>Title := trimSpace (Title m)\<rparr>;
          m2 = (if Date m1 \<noteq> [] then m1\<lparr>Date := trimSpace (Date m1)\<rparr> else m1)
      in m2\<lparr>Tags := uniqueTags (Tags m2) [] []\<rparr>)"

text \<open>
  \<open>Parse\<close> (lines 48 to 110): \<open>parseLines\<close> is the loop over the scanned lines of the
  block; \<open>emptyResult\<close> is the result \<open>Parse\<close> starts from.
\<close>

fun parseLines :: "bool \<Rightarrow> string list \<Rightarrow> nat \<Rightarrow> ParseResult \<Rightarrow> ParseResult \<times> string option" where
  "parseLines strict [] lineNum result = (result, None)"
| "parseLines strict (line # rest) lineNum result =
     (let lineNum' = lineNum + 1; trimmed = trimSpace line in
      if trimmed = [] \<or> hasPrefix trimmed ''%% Metadata'' \<or> hasPrefix trimmed ''% Metadata''
      then parseLines strict rest lineNum' result
      else (case parseMetadataLine strict line lineNum' result of
              (result', Some err) \<Rightarrow>
                if strict then (result', Some err) else parseLines strict rest lineNum' result'
            | (result', None) \<Rightarrow> parseLines strict rest lineNum' result'))"

definition Parse :: "bool \<Rightarrow> string \<Rightarrow> ParseResult \<times> string option" where
  "Parse strict content =
     (case extractMetadataBlock content of
        (metadataBlock, blockStart, found) \<Rightarrow>
          if \<not> found then
            (addError \<lparr>Line = 0, Field = ''metadata'', Message = ''no metadata block found''\<rparr> emptyResult,
             if strict then Some ''no metadata block found'' else None)
          else
            (case parseLines strict (scanLines metadataBlock) blockStart emptyResult of
               (r1, Some err) \<Rightarrow> (r1, Some err)
             | (r1, None) \<Rightarrow>
                 (case validateMetadata (Metadata r1) of
                    Some err \<Rightarrow>
                      (let r2 = addError \<lparr>Line = 0, Field = ''validation'', Message = err\<rparr> r1
                       in if strict then (r2, Some err)
                          else (r2\<lparr>Metadata := normalizeMetadata (Metadata r2)\<rparr>, None))
                  | None \<Rightarrow> (r1\<lparr>Metadata := normalizeMetadata (Metadata r1)\<rparr>, None))))"

text \<open>
  \<open>Format\<close> (lines 294 to 313). The date of the day, which the source takes from the
  clock when the header has no date, is the parameter \<open>today\<close>.
\<close>

definition Format :: "string \<Rightarrow> Metadata \<Rightarrow> string" where
  "Format today m =
     ''%% Metadata'' @ [CHR 0x0A]
     @ ''%% title: '' @ Title m @ [CHR 0x0A]
     @ (if Date m \<noteq> [] then ''%% date: '' @ Date m @ [CHR 0x0A]
        else ''%% date: '' @ today @ [CHR 0x0A])
     @ (if Tags m \<noteq> [] then ''%% tags: '' @ join '', '' (Tags m) @ [CHR 0x0A]
        else ''%% tags: '' @ [CHR 0x0A])"

text \<open>
  \<open>Update\<close> (lines 317 to 380): \<open>findBlockEnd\<close> is the loop that looks for the end of the
  block, started at line \<open>blockStart\<close>; \<open>writeRest\<close> writes the lines from \<open>blockEnd\<close> on,
  \<open>n\<close> being the number of lines.
\<close>

fun findBlockEnd :: "nat \<Rightarrow> string list \<Rightarrow> bool \<Rightarrow> nat \<Rightarrow> nat" where
  "findBlockEnd i [] inBlock blockEnd = blockEnd"
| "findBlockEnd i (line # rest) inBlock blockEnd =
     (let trimmed = trimSpace line in
      if hasPrefix trimmed ''%% Metadata'' \<or> hasPrefix trimmed ''% Metadata''
      then findBlockEnd (i + 1) rest True blockEnd
      else if inBlock \<and> \<not> hasPrefix trimmed ''%'' then i
      else if inBlock \<and> hasPrefix trimmed ''%'' then findBlockEnd (i + 1) rest inBlock (i + 1)
      else findBlockEnd (i + 1) rest inBlock blockEnd)"

fun writeRest :: "nat \<Rightarrow> nat \<Rightarrow> nat \<Rightarrow> string list \<Rightarrow> string" where
  "writeRest blockEnd n i [] = []"
| "writeRest blockEnd n i (line # rest) =
     (if i = blockEnd \<and> trimSpace line = [] then writeRest blockEnd n (i + 1) rest
      else line @ (if i < n - 1 then [CHR 0x0A] else []) @ writeRest blockEnd n (i + 1) rest)"

definition Update :: "string \<Rightarrow> string \<Rightarrow> Metadata \<Rightarrow> string" where
  "Update today content m =
     (case extractMetadataBlock content of
        (_, blockStart, found) \<Rightarrow>
          (let newMetadata = Format today m in
           if \<not> found then newMetadata @ [CHR 0x0A] @ content
           else
             (let lines = split (CHR 0x0A) content;
                  blockEnd = findBlockEnd blockStart (drop blockStart lines) False blockStart
              in concat (map (\<lambda>l. l @ [CHR 0x0A]) (take blockStart lines))
                 @ newMetadata
                 @ writeRest blockEnd (length lines) blockEnd (drop blockEnd lines))))"

definition Extract :: "string \<Rightarrow> string + Metadata" where
  "Extract content =
     (case Parse False content of
        (result, Some err) \<Rightarrow> Inl err
      | (result, None) \<Rightarrow> Inr (Metadata result))"

definition ExtractStrict :: "string \<Rightarrow> string + Metadata" where
  "ExtractStrict content =
     (case Parse True content of
        (result, Some err) \<Rightarrow> Inl err
      | (result, None) \<Rightarrow> Inr (Metadata result))"

section \<open>Slug resolver (server.go)\<close>

text \<open>
  \<open>parseFilenameToSlug\<close>. The source ranges over the runes of the first part; a part
  of 8 bytes has only digit runes exactly when each of its bytes is a digit, since
  every byte of a multi-byte or invalid sequence decodes to a rune above \<open>'9'\<close>.
\<close>

definition parseFilenameToSlug :: "string \<Rightarrow> string" where
  "parseFilenameToSlug filename =
     (let name = trimSuffix filename ''.tex'';
          parts = splitN2 (CHR ''-'') name
      in if length parts = 2 \<and> length (parts ! 0) = 8 \<and> list_all isDigit (parts ! 0)
         then parts ! 1
         else name)"

section \<open>URI to path (server.go)\<close>

datatype go_panic = SliceBoundsOutOfRange

text \<open>
  \<open>uriToPath\<close>: the slice expression \<open>path[7:]\<close> panics at run time when the string
  has fewer than 7 bytes.
\<close>

definition uriToPath :: "string \<Rightarrow> go_panic + string" where
  "uriToPath uri =
     (if trimPrefix uri ''file://'' \<noteq> ''''
      then (if 7 \<le> length uri then Inr (drop 7 uri) else Inl SliceBoundsOutOfRange)
      else Inr uri)"

section \<open>Note index and synchronizer (server.go)\<close>

text \<open>
  \<open>filepath.Base\<close> on a system whose separator is the slash: trailing slashes are
  removed, then everything up to the last slash; the empty path gives a dot and a path
  of slashes gives one slash.
\<close>

definition filepathBase :: "string \<Rightarrow> string" where
  "filepathBase path =
     (if path = [] then ''.''
      else (let p1 = rev (dropWhile (\<lambda>c. c = CHR ''/'') (rev path));
                p2 = rev (takeWhile (\<lambda>c. c \<noteq> CHR ''/'') (rev p1))
            in if p2 = [] then ''/'' else p2))"

text \<open>
  \<open>NoteHeader\<close> has the fields \<open>Title\<close>, \<open>Date\<close> and \<open>Tags\<close> of \<open>Metadata\<close>, in this order,
  followed by \<open>Slug\<close> and \<open>Filename\<close>. The index is the map from slugs to headers; it is
  kept as an association list with at most one pair for a slug (\<open>NewIndex\<close>, \<open>Index_Set\<close>
  and \<open>Index_Delete\<close> keep it so), in which \<open>Index_All\<close> has some order, as the iteration
  over a Go map has. The lock does not appear: every operation is one step.
\<close>

record NoteHeader = Metadata +
  Slug :: string
  Filename :: string

type_synonym Index = "(string \<times> NoteHeader) list"

definition NewIndex :: Index where "NewIndex = []"
definition Index_Get :: "Index \<Rightarrow> string \<Rightarrow> NoteHeader option" where
  "Index_Get i slug = map_of i slug"
definition Index_Set :: "Index \<Rightarrow> string \<Rightarrow> NoteHeader \<Rightarrow> Index" where
  "Index_Set i slug header = AList.update slug header i"
definition Index_Delete :: "Index \<Rightarrow> string \<Rightarrow> Index" where
  "Index_Delete i slug = AList.delete slug i"
definition Index_Count :: "Index \<Rightarrow> nat" where
  "Index_Count i = length i"
definition Index_All :: "Index \<Rightarrow> NoteHeader list" where
  "Index_All i = map snd i"

text \<open>
  \<open>parseNoteHeader\<close> and \<open>updateIndexForFile\<close> (server.go, lines 160 to 174 and 216 to
  257). The file system is given by two functions: \<open>notExist path\<close> says that \<open>os.Stat\<close>
  fails with an error for which \<open>os.IsNotExist\<close> holds, and \<open>readNote filename\<close> is the
  result of reading the file \<open>vault.GetNotePath(filename)\<close>, an error or the content.
\<close>

definition parseNoteHeader :: "(string \<Rightarrow> string + string) \<Rightarrow> string \<Rightarrow> string + NoteHeader" where
  "parseNoteHeader readNote filename =
     (case readNote filename of
        Inl err \<Rightarrow> Inl err
      | Inr content \<Rightarrow>
          (case Extract content of
             Inl err \<Rightarrow>
               (let slug = parseFilenameToSlug filename
                in Inr \<lparr>Title = slug, Date = [], Tags = [], Slug = slug, Filename = filename\<rparr>)
           | Inr meta \<Rightarrow>
               (let header = \<lparr>Title = Title meta, Date = Date meta, Tags = Tags meta,
                               Slug = parseFilenameToSlug filename, Filename = filename\<rparr>
                in Inr (if Title header = [] then header\<lparr>Title := Slug header\<rparr> else header))))"

definition updateIndexForFile :: "(string \<Rightarrow> bool) \<Rightarrow> (string \<Rightarrow> string + string) \<Rightarrow> string \<Rightarrow> Index \<Rightarrow> Index" where
  "updateIndexForFile notExist readNote path index =
     (if notExist path
      then Index_Delete index (parseFilenameToSlug (filepathBase path))
      else (case parseNoteHeader readNote (filepathBase path) of
              Inr header \<Rightarrow> Index_Set index (Slug header) header
            | Inl err \<Rightarrow> index))"

section \<open>Query handlers (handlers.go)\<close>

text \<open>
  The patterns \<open>\\(?:ref|cite)\{([^}]+)\}\<close> and \<open>\\todo\{([^}]+)\}\<close> of
  \<open>analyzeDiagnostics\<close>: a keyword with its open brace, the longest run of characters
  other than the closing brace, which must not be empty, and a closing brace.
  \<open>matchBracedAt\<close> matches at the start of a string and returns the offsets of the
  argument; \<open>findAllBraced\<close> is \<open>FindAllStringSubmatchIndex\<close>: the matches from left to
  right, each search starting where the last match ended, as the offsets of the match
  and of its argument.
\<close>

definition matchBracedAt :: "string list \<Rightarrow> string \<Rightarrow> (nat \<times> nat) option" where
  "matchBracedAt kws s =
     (case find (hasPrefix s) kws of
        None \<Rightarrow> None
      | Some kw \<Rightarrow>
          (let arg = takeWhile (\<lambda>c. c \<noteq> CHR ''}'') (drop (length kw) s)
           in if arg \<noteq> [] \<and> length kw + length arg < length s
              then Some (length kw, length kw + length arg)
              else None))"

function findAllBraced :: "string list \<Rightarrow> nat \<Rightarrow> string \<Rightarrow> (nat \<times> nat \<times> nat \<times> nat) list" where
  "findAllBraced kws off [] = []"
| "findAllBraced kws off (c # cs) =
     (case matchBracedAt kws (c # cs) of
        Some (a, b) \<Rightarrow> (off, off + b + 1, off + a, off + b) # findAllBraced kws (off + b + 1) (drop b cs)
      | None \<Rightarrow> findAllBraced kws (off + 1) cs)"
  by pat_completeness auto
termination
  by (relation "measure (\<lambda>(kws, off, s). length s)") auto

definition refKeywords :: "string list" where
  "refKeywords = [CHR 0x5C # ''ref{'', CHR 0x5C # ''cite{'']"

definition todoKeywords :: "string list" where
  "todoKeywords = [CHR 0x5C # ''todo{'']"

text \<open>
  The types of package \<open>protocol\<close> the handlers fill in. Line and column numbers are
  \<open>uint32\<close>; the field \<open>Line\<close> of a position is \<open>PLine\<close> here and the field \<open>Message\<close> of a
  diagnostic is \<open>DMessage\<close>, the records of the parser having fields of these names.
\<close>

record Position =
  PLine :: "32 word"
  Character :: "32 word"

record Range =
  Start :: Position
  End :: Position

datatype DiagnosticSeverity = DiagnosticSeverityError | DiagnosticSeverityWarning

record Diagnostic =
  Range :: Range
  Severity :: DiagnosticSeverity
  DMessage :: string
  Source :: string

text \<open>\<open>analyzeDiagnostics\<close> (handlers.go, lines 371 to 421); \<open>slice s a b\<close> is \<open>s[a:b]\<close>.\<close>

definition slice :: "string \<Rightarrow> nat \<Rightarrow> nat \<Rightarrow> string" where
  "slice s a b = take (b - a) (drop a s)"

definition refDiagnostic :: "Index \<Rightarrow> nat \<Rightarrow> string \<Rightarrow> (nat \<times> nat \<times> nat \<times> nat) \<Rightarrow> Diagnostic list" where
  "refDiagnostic index lineNum line m =
     (case m of (mStart, mEnd, aStart, aEnd) \<Rightarrow>
        (let rawSlug = slice line aStart aEnd;
             slug = trimSuffix (trimSpace rawSlug) ''.tex''
         in case Index_Get index slug of
              None \<Rightarrow>
                [\<lparr>Range = \<lparr>Start = \<lparr>PLine = of_nat lineNum, Character = of_nat aStart\<rparr>,
                            End = \<lparr>PLine = of_nat lineNum, Character = of_nat aEnd\<rparr>\<rparr>,
                   Severity = DiagnosticSeverityError,
                   DMessage = ''Note '' @ [CHR 0x27] @ slug @ [CHR 0x27] @ '' not found'',
                   Source = ''lx-ls''\<rparr>]
            | Some _ \<Rightarrow> []))"

definition todoDiagnostic :: "nat \<Rightarrow> string \<Rightarrow> (nat \<times> nat \<times> nat \<times> nat) \<Rightarrow> Diagnostic" where
  "todoDiagnostic lineNum line m =
     (case m of (mStart, mEnd, aStart, aEnd) \<Rightarrow>
        \<lparr>Range = \<lparr>Start = \<lparr>PLine = of_nat lineNum, Character = of_nat mStart\<rparr>,
                   End = \<lparr>PLine = of_nat lineNum, Character = of_nat mEnd\<rparr>\<rparr>,
          Severity = DiagnosticSeverityWarning,
          DMessage = ''TODO: '' @ slice line aStart aEnd,
          Source = ''lx-ls''\<rparr>)"

fun diagnosticsLoop :: "Index \<Rightarrow> nat \<Rightarrow> string list \<Rightarrow> Diagnostic list" where
  "diagnosticsLoop index lineNum [] = []"
| "diagnosticsLoop index lineNum (line # rest) =
     (if hasPrefix (trimSpace line) ''%'' then diagnosticsLoop index (lineNum + 1) rest
      else concat (map (refDiagnostic index lineNum line) (findAllBraced refKeywords 0 line))
           @ map (todoDiagnostic lineNum line) (findAllBraced todoKeywords 0 line)
           @ diagnosticsLoop index (lineNum + 1) rest)"

definition analyzeDiagnostics :: "Index \<Rightarrow> string \<Rightarrow> Diagnostic list" where
  "analyzeDiagnostics index content = diagnosticsLoop index 0 (split (CHR 0x0A) content)"

datatype CompletionItemKind = CompletionItemKindReference | CompletionItemKindModule | CompletionItemKindSnippet

record CompletionItem =
  Label :: string
  Kind :: CompletionItemKind
  Detail :: string
  InsertText :: string

record CompletionList =
  IsIncomplete :: bool
  Items :: "CompletionItem list"

definition getRefCompletions :: "Index \<Rightarrow> CompletionItem list" where
  "getRefCompletions index =
     map (\<lambda>note. \<lparr>Label = Slug note, Kind = CompletionItemKindReference,
                    Detail = Title note, InsertText = Slug note\<rparr>) (Index_All index)"

definition listTemplates :: "(string \<times> bool) list option \<Rightarrow> string list option" where
  "listTemplates entries =
     (case entries of
        None \<Rightarrow> None
      | Some es \<Rightarrow> Some (map (\<lambda>(name, isDir). trimSuffix name ''.sty'')
                           (filter (\<lambda>(name, isDir). \<not> (isDir \<or> \<not> hasSuffix name ''.sty'')) es)))"

definition getTemplateCompletions :: "(string \<times> bool) list option \<Rightarrow> CompletionItem list" where
  "getTemplateCompletions entries =
     (case listTemplates entries of
        None \<Rightarrow> []
      | Some templates \<Rightarrow>
          map (\<lambda>tmpl. \<lparr>Label = tmpl, Kind = CompletionItemKindModule, Detail = [], InsertText = tmpl\<rparr>) templates)"

definition getSnippetCompletions :: "CompletionItem list" where
  "getSnippetCompletions =
     [\<lparr>Label = CHR 0x5C # ''todo{}'', Kind = CompletionItemKindSnippet, Detail = ''TODO marker'',
        InsertText = CHR 0x5C # ''todo{${1:description}}''\<rparr>,
      \<lparr>Label = CHR 0x5C # ''includegraphics'', Kind = CompletionItemKindSnippet, Detail = ''Include asset'',
        InsertText = CHR 0x5C # ''includegraphics[width=0.8'' @ CHR 0x5C # ''linewidth]{${1:filename}}''\<rparr>]"

text \<open>
  \<open>matchOpen kw\<close> is \<open>FindStringSubmatch\<close> for a pattern such as \<open>\\ref\{([^}]*)$\<close>: the
  leftmost place where the keyword with its open brace is followed by no closing brace
  up to the end of the text; the group is what follows the brace.
\<close>

fun matchOpen :: "string \<Rightarrow> string \<Rightarrow> string option" where
  "matchOpen kw [] = None"
| "matchOpen kw (c # cs) =
     (if hasPrefix (c # cs) kw \<and> CHR ''}'' \<notin> set (drop (length kw) (c # cs))
      then Some (drop (length kw) (c # cs))
      else matchOpen kw cs)"

text \<open>
  \<open>IsManaged\<close> (server.go, lines 285 to 309) with \<open>filepath.Abs\<close> as a parameter, and
  \<open>Completion\<close> (handlers.go, lines 113 to 184). \<open>GetDocument\<close>, which is not among the
  sources, is a parameter giving the text of a document or no text; \<open>templateEntries\<close>
  is the result of reading the templates directory, names paired with the flag of a
  directory. A panic of \<open>uriToPath\<close> ends the call.
\<close>

definition IsManaged :: "(string \<Rightarrow> string option) \<Rightarrow> string \<Rightarrow> string \<Rightarrow> go_panic + bool" where
  "IsManaged filepathAbs vaultNotesPath uri =
     (case uriToPath uri of
        Inl p \<Rightarrow> Inl p
      | Inr path \<Rightarrow>
          Inr (if path = [] then False
               else (case filepathAbs vaultNotesPath of
                       None \<Rightarrow> False
                     | Some notesPath \<Rightarrow>
                         (case filepathAbs path of
                            None \<Rightarrow> False
                          | Some absPath \<Rightarrow>
                              if \<not> hasSuffix absPath ''.tex'' then False
                              else hasPrefix absPath notesPath))))"

definition emptyList :: CompletionList where
  "emptyList = \<lparr>IsIncomplete = False, Items = []\<rparr>"

definition Completion ::
  "(string \<Rightarrow> string option) \<Rightarrow> string \<Rightarrow> (string \<Rightarrow> string option) \<Rightarrow> (string \<times> bool) list option
     \<Rightarrow> Index \<Rightarrow> string \<Rightarrow> nat \<Rightarrow> nat \<Rightarrow> go_panic + CompletionList" where
  "Completion filepathAbs vaultNotesPath GetDocument templateEntries index uri posLine posCharacter =
     (case IsManaged filepathAbs vaultNotesPath uri of
        Inl p \<Rightarrow> Inl p
      | Inr managed \<Rightarrow>
          if \<not> managed then Inr emptyList
          else (case GetDocument uri of
                  None \<Rightarrow> Inr emptyList
                | Some content \<Rightarrow>
                    (let lines = split (CHR 0x0A) content in
                     if posLine \<ge> length lines then Inr emptyList
                     else (let line = lines ! posLine in
                           if posCharacter > length line then Inr emptyList
                           else (let linePrefix = take posCharacter line;
                                     items1 = (case matchOpen (CHR 0x5C # ''ref{'') linePrefix of
                                                 None \<Rightarrow> []
                                               | Some prefix \<Rightarrow>
                                                   (let items = getRefCompletions index in
                                                    if prefix \<noteq> [] then filter (\<lambda>item. hasPrefix (Label item) prefix) items
                                                    else items));
                                     items2 = (case matchOpen (CHR 0x5C # ''usepackage{'') linePrefix of
                                                 None \<Rightarrow> items1
                                               | Some prefix \<Rightarrow>
                                                   (let templateItems = getTemplateCompletions templateEntries in
                                                    if prefix \<noteq> [] then items1 @ filter (\<lambda>item. hasPrefix (Label item) prefix) templateItems
                                                    else items1 @ templateItems));
                                     items3 = (if length items2 = 0 then items2 @ getSnippetCompletions else items2)
                                 in Inr \<lparr>IsIncomplete = False, Items = items3\<rparr>)))))"

definition idx1 :: Index where
  "idx1 = Index_Set NewIndex ''existing-note'' \<lparr>Title = ''Existing'', Date = [], Tags = [], Slug = ''existing-note'', Filename = ''existing-note.tex''\<rparr>"

section \<open>Properties of the slug resolver\<close>

lemma trimSuffix_append: "hasSuffix s p \<Longrightarrow> trimSuffix s p @ p = s"
proof -
  assume h: "hasSuffix s p"
  then have "drop (length s - length p) s = p" by (simp add: hasSuffix_def)
  then have "take (length s - length p) s @ p = s"
    using append_take_drop_id[of "length s - length p" s] by simp
  with h show ?thesis by (simp add: trimSuffix_def)
qed

lemma takeWhile_until_sep:
  "sep \<notin> set d \<Longrightarrow> takeWhile (\<lambda>c. c \<noteq> sep) (d @ sep # rest) = d"
  by (induction d) auto

lemma dropWhile_until_sep:
  "sep \<notin> set d \<Longrightarrow> dropWhile (\<lambda>c. c \<noteq> sep) (d @ sep # rest) = sep # rest"
  by (induction d) auto

lemma splitN2_hyphen:
  assumes "CHR ''-'' \<notin> set d"
  shows "splitN2 (CHR ''-'') (d @ CHR ''-'' # rest) = [d, rest]"
  unfolding splitN2_def
  using takeWhile_until_sep[OF assms, of rest] dropWhile_until_sep[OF assms, of rest]
  by simp

lemma digits_no_hyphen: "list_all isDigit d \<Longrightarrow> CHR ''-'' \<notin> set d"
  by (auto simp: list_all_iff isDigit_def)

lemma splitN2_cases:
  "splitN2 sep s = [s] \<and> sep \<notin> set s \<or>
   (\<exists>d rest. splitN2 sep s = [d, rest] \<and> s = d @ sep # rest \<and> sep \<notin> set d)"
proof (cases "sep \<in> set s")
  case False
  then show ?thesis by (simp add: splitN2_def)
next
  case True
  let ?d = "takeWhile (\<lambda>c. c \<noteq> sep) s"
  let ?r = "dropWhile (\<lambda>c. c \<noteq> sep) s"
  from True have ne: "?r \<noteq> []" by (auto simp: dropWhile_eq_Nil_conv)
  then have "hd ?r = sep" using hd_dropWhile[of "\<lambda>c. c \<noteq> sep" s] by auto
  with ne have r: "?r = sep # tl ?r" by (cases ?r) auto
  have "s = ?d @ ?r" by simp
  with r have s: "s = ?d @ sep # tl ?r" by metis
  have nd: "sep \<notin> set ?d" by (auto dest: set_takeWhileD)
  show ?thesis using True s nd by (auto simp: splitN2_def)
qed

text \<open>
  C4. \<open>parseFilenameToSlug\<close> strips a trailing \<open>.tex\<close>; when the rest is 8 ASCII
  digits, a hyphen and a remainder, it returns the remainder; in every other case it
  returns the extension-stripped name. It is a total function of its argument alone,
  and maps \<open>20240101-graph-theory.tex\<close> to \<open>graph-theory\<close> and \<open>simple.tex\<close> to
  \<open>simple\<close>.
\<close>

theorem parseFilenameToSlug_spec:
  "(\<forall>d rest. trimSuffix filename ''.tex'' = d @ CHR ''-'' # rest \<and> length d = 8 \<and> list_all isDigit d
      \<longrightarrow> parseFilenameToSlug filename = rest)
   \<and> ((\<nexists>d rest. trimSuffix filename ''.tex'' = d @ CHR ''-'' # rest \<and> length d = 8 \<and> list_all isDigit d)
      \<longrightarrow> parseFilenameToSlug filename = trimSuffix filename ''.tex'')
   \<and> (hasSuffix filename ''.tex'' \<longrightarrow> trimSuffix filename ''.tex'' @ ''.tex'' = filename)
   \<and> (\<not> hasSuffix filename ''.tex'' \<longrightarrow> trimSuffix filename ''.tex'' = filename)
   \<and> parseFilenameToSlug ''20240101-graph-theory.tex'' = ''graph-theory''
   \<and> parseFilenameToSlug ''simple.tex'' = ''simple''"
proof (intro conjI allI impI)
  fix d rest
  assume h: "trimSuffix filename ''.tex'' = d @ CHR ''-'' # rest \<and> length d = 8 \<and> list_all isDigit d"
  then have "splitN2 (CHR ''-'') (trimSuffix filename ''.tex'') = [d, rest]"
    using splitN2_hyphen[OF digits_no_hyphen] by simp
  with h show "parseFilenameToSlug filename = rest"
    by (simp add: parseFilenameToSlug_def Let_def)
next
  assume n: "\<nexists>d rest. trimSuffix filename ''.tex'' = d @ CHR ''-'' # rest \<and> length d = 8 \<and> list_all isDigit d"
  let ?name = "trimSuffix filename ''.tex''"
  from splitN2_cases[of "CHR ''-''" ?name]
  show "parseFilenameToSlug filename = ?name"
  proof
    assume "splitN2 (CHR ''-'') ?name = [?name] \<and> CHR ''-'' \<notin> set ?name"
    then show ?thesis by (simp add: parseFilenameToSlug_def Let_def)
  next
    assume "\<exists>d rest. splitN2 (CHR ''-'') ?name = [d, rest] \<and> ?name = d @ CHR ''-'' # rest \<and> CHR ''-'' \<notin> set d"
    then obtain d rest where s: "splitN2 (CHR ''-'') ?name = [d, rest]"
      and e: "?name = d @ CHR ''-'' # rest" by blast
    from n e have "\<not> (length d = 8 \<and> list_all isDigit d)" by blast
    with s show ?thesis by (auto simp: parseFilenameToSlug_def Let_def)
  qed
next
  assume "hasSuffix filename ''.tex''"
  then show "trimSuffix filename ''.tex'' @ ''.tex'' = filename"
    by (rule trimSuffix_append)
next
  assume "\<not> hasSuffix filename ''.tex''"
  then show "trimSuffix filename ''.tex'' = filename" by (simp add: trimSuffix_def)
next
  show "parseFilenameToSlug ''20240101-graph-theory.tex'' = ''graph-theory''"
    by (simp add: parseFilenameToSlug_def trimSuffix_def hasSuffix_def splitN2_def isDigit_def)
next
  show "parseFilenameToSlug ''simple.tex'' = ''simple''"
    by (simp add: parseFilenameToSlug_def trimSuffix_def hasSuffix_def splitN2_def isDigit_def)
qed

theorem parseFilenameToSlug_spec_witness:
  "parseFilenameToSlug ''20251128-graph-theory.tex'' = ''graph-theory''
   \<and> parseFilenameToSlug ''2025-notes.tex'' = ''2025-notes''"
proof -
  have t1: "trimSuffix ''20251128-graph-theory.tex'' ''.tex'' = ''20251128'' @ CHR ''-'' # ''graph-theory''"
    by (simp add: trimSuffix_def hasSuffix_def)
  have p1: "length ''20251128'' = 8 \<and> list_all isDigit ''20251128''"
    by (simp add: isDigit_def)
  have a: "parseFilenameToSlug ''20251128-graph-theory.tex'' = ''graph-theory''"
    using parseFilenameToSlug_spec[of "''20251128-graph-theory.tex''"] t1 p1 by blast
  have t2: "trimSuffix ''2025-notes.tex'' ''.tex'' = ''2025-notes''"
    by (simp add: trimSuffix_def hasSuffix_def)
  have n2: "\<nexists>d rest. ''2025-notes'' = d @ CHR ''-'' # rest \<and> length d = 8 \<and> list_all isDigit d"
  proof
    assume "\<exists>d rest. ''2025-notes'' = d @ CHR ''-'' # rest \<and> length d = 8 \<and> list_all isDigit d"
    then obtain d rest where e: "''2025-notes'' = d @ CHR ''-'' # rest" and l: "length d = 8"
      and dg: "list_all isDigit d" by blast
    from e l have "d = take 8 ''2025-notes''" by (metis append_eq_conv_conj)
    then have "d = ''2025-not''" by simp
    with dg show False by (simp add: isDigit_def)
  qed
  have b: "parseFilenameToSlug ''2025-notes.tex'' = ''2025-notes''"
    using parseFilenameToSlug_spec[of "''2025-notes.tex''"] t2 n2 by simp
  from a b show ?thesis by simp
qed

section \<open>Properties of the URI conversion\<close>

text \<open>
  C10 (evaluation at the failing input). On the three-byte URI \<open>abc\<close> the guard of
  \<open>uriToPath\<close> holds and the slice \<open>path[7:]\<close> is out of range: the call panics
  instead of returning a string.
\<close>

theorem uriToPath_short_uri_panics:
  "uriToPath ''abc'' = Inl SliceBoundsOutOfRange"
  by (simp add: uriToPath_def trimPrefix_def hasPrefix_def)

end
